theory Spec2Isabelle
  imports Main "HOL-Library.Word"
begin

section \<open>Values shared by the model\<close>

text \<open>
  Go's \<open>error\<close> interface: \<open>nil\<close> is \<open>None\<close>.  \<open>EOF\<close> is the sentinel \<open>io.EOF\<close>,
  \<open>ErrShortWrite\<close> is \<open>io.ErrShortWrite\<close>, and \<open>Errorf s\<close> is the value built by
  \<open>fmt.Errorf\<close> (or by any other collaborator) whose message is \<open>s\<close>.
\<close>

datatype error = EOF | ErrShortWrite | Errorf string

fun Error :: "error \<Rightarrow> string" where
  "Error EOF = ''EOF''"
| "Error ErrShortWrite = ''short write''"
| "Error (Errorf s) = s"

type_synonym int64 = "64 word"

text \<open>
  \<open>CopyCallback\<close> is \<open>func(totalSize int64, readSoFar int64, readSinceLast int) error\<close>.
  A Go closure may own mutable variables; they are the state \<open>'c\<close> that the callback
  takes and returns.  Go's \<open>int\<close> is \<open>int\<close> here and \<open>int64(n)\<close> is \<open>word_of_int n\<close>.
\<close>

type_synonym 'c CopyCallback = "int64 \<Rightarrow> int64 \<Rightarrow> int \<Rightarrow> 'c \<Rightarrow> error option \<times> 'c"

section \<open>The underlying reader\<close>

text \<open>
  The embedded \<open>io.Reader\<close> is an interface value supplied by the caller.  One run of it
  is the sequence of results \<open>(n, err)\<close> its \<open>Read\<close> calls return, so a reader is the list of
  results it still has to give; a reader with nothing left reports \<open>(0, io.EOF)\<close>.
\<close>

type_synonym Reader = "(int \<times> error option) list"

fun Reader_Read :: "Reader \<Rightarrow> (int \<times> error option) \<times> Reader" where
  "Reader_Read [] = ((0, Some EOF), [])"
| "Reader_Read (r # rs) = (r, rs)"

section \<open>CallbackReader\<close>

record 'c CallbackReader =
  C :: "'c CopyCallback option"
  TotalSize :: int64
  ReadSize :: int64
  Reader :: Reader

text \<open>
  \<open>func (w *CallbackReader) Read(p []byte) (int, error)\<close>: the result, the updated
  receiver and the callback's state.
\<close>

definition Read :: "'c CallbackReader \<Rightarrow> 'c \<Rightarrow> (int \<times> error option) \<times> 'c CallbackReader \<times> 'c" where
  "Read w c =
     (case Reader_Read (Reader w) of ((n, err), rd) \<Rightarrow>
        let w1 = w\<lparr>Reader := rd\<rparr>;
            w2 = (if n > 0 then w1\<lparr>ReadSize := ReadSize w1 + word_of_int n\<rparr> else w1)
        in (case C w2 of
              Some cb \<Rightarrow>
                if err = None
                then (case cb (TotalSize w2) (ReadSize w2) n c of
                        (err', c') \<Rightarrow> ((n, err'), w2, c'))
                else ((n, err), w2, c)
            | None \<Rightarrow> ((n, err), w2, c)))"

text \<open>\<open>N\<close> successive calls of \<open>Read\<close>, with the results they returned, oldest first.\<close>

fun Reads :: "nat \<Rightarrow> 'c CallbackReader \<Rightarrow> 'c \<Rightarrow> (int \<times> error option) list \<times> 'c CallbackReader \<times> 'c" where
  "Reads 0 w c = ([], w, c)"
| "Reads (Suc k) w c =
     (case Read w c of (r, w', c') \<Rightarrow>
        (case Reads k w' c' of (rs, w'', c'') \<Rightarrow> (r # rs, w'', c'')))"

section \<open>CopyWithCallback\<close>

text \<open>
  \<open>io.Copy\<close> takes its source as an \<open>io.Reader\<close> interface value.  The two dynamic
  types \<open>CopyWithCallback\<close> passes are the caller's reader itself and a
  \<open>*CallbackReader\<close> around it; \<open>Source_Read\<close> is the method dispatch.
\<close>

datatype 'c Source = Plain Reader | Wrapped "'c CallbackReader"

fun Source_Read :: "'c Source \<Rightarrow> 'c \<Rightarrow> (int \<times> error option) \<times> 'c Source \<times> 'c" where
  "Source_Read (Plain rd) c = (case Reader_Read rd of (r, rd') \<Rightarrow> (r, Plain rd', c))"
| "Source_Read (Wrapped w) c = (case Read w c of (r, w', c') \<Rightarrow> (r, Wrapped w', c'))"

fun pending :: "'c Source \<Rightarrow> Reader" where
  "pending (Plain rd) = rd"
| "pending (Wrapped w) = Reader w"

text \<open>
  The destination is an \<open>io.Writer\<close> supplied by the caller: \<open>dst_Write d nr\<close> is
  \<open>dst.Write(buf[0:nr])\<close> on a writer in state \<open>d\<close>, giving \<open>(nw, ew)\<close> and the next state.
\<close>

type_synonym 'w Writer = "'w \<Rightarrow> int \<Rightarrow> (int \<times> error option) \<times> 'w"

text \<open>
  \<open>io.Copy\<close> is part of Go's standard library, not of this repository.  Its generic loop
  (the one that runs when neither side offers \<open>WriteTo\<close>/\<open>ReadFrom\<close>) is:
  \<^verbatim>\<open>
  for {
      nr, er := src.Read(buf)
      if nr > 0 {
          nw, ew := dst.Write(buf[0:nr])
          if nw > 0 { written += int64(nw) }
          if ew != nil { err = ew; break }
          if nr != nw { err = ErrShortWrite; break }
      }
      if er == EOF { break }
      if er != nil { err = er; break }
  }
  return written, err
  \<close>
  The model returns, besides \<open>(written, err)\<close>, the writer, the source and the callback
  state as the loop left them.  The inner \<open>case\<close> yields \<open>Some err\<close> for a \<open>break\<close> out of the
  write block.
\<close>

function io_Copy ::
  "'w Writer \<Rightarrow> 'w \<Rightarrow> 'c Source \<Rightarrow> 'c \<Rightarrow> int64 \<Rightarrow> (int64 \<times> error option) \<times> 'w \<times> 'c Source \<times> 'c" where
  "io_Copy dst_Write dst src c written =
     (case Source_Read src c of ((nr, er), src', c') \<Rightarrow>
        (case (if nr > 0
               then (case dst_Write dst nr of ((nw, ew), dst') \<Rightarrow>
                       let written' = (if nw > 0 then written + word_of_int nw else written)
                       in if ew \<noteq> None then (written', dst', Some ew)
                          else if nr \<noteq> nw then (written', dst', Some (Some ErrShortWrite))
                          else (written', dst', None))
               else (written, dst, None)) of
           (written', dst', Some err) \<Rightarrow> ((written', err), dst', src', c')
         | (written', dst', None) \<Rightarrow>
             if er = Some EOF then ((written', None), dst', src', c')
             else if er \<noteq> None then ((written', er), dst', src', c')
             else io_Copy dst_Write dst' src' c' written'))"
  by pat_completeness auto

lemma Reader_Read_shorter:
  "Reader_Read rd = ((n, None), rd') \<Longrightarrow> length rd' < length rd"
  by (cases rd) auto

lemma Read_shorter:
  "Read w c = ((n, None), w', c') \<Longrightarrow> length (Reader w') < length (Reader w)"
  by (cases "Reader w")
     (auto simp: Read_def Let_def split: prod.splits option.splits if_splits)

lemma Source_Read_shorter:
  "Source_Read src c = ((n, None), src', c') \<Longrightarrow> length (pending src') < length (pending src)"
  by (cases src) (auto split: prod.splits dest: Reader_Read_shorter Read_shorter)

termination io_Copy
proof (relation "measure (\<lambda>(dst_Write, dst, src, c, written). length (pending src))", goal_cases)
  case 1
  show ?case by simp
next
  case (2 dst_Write dst src c written x y nr er src' c')
  then have "Source_Read src c = ((nr, None), src', c')"
    by simp
  then have "length (pending src') < length (pending src)"
    by (rule Source_Read_shorter)
  then show ?case
    by simp
qed

definition CopyWithCallback ::
  "'w Writer \<Rightarrow> 'w \<Rightarrow> Reader \<Rightarrow> int64 \<Rightarrow> 'c CopyCallback option \<Rightarrow> 'c
     \<Rightarrow> (int64 \<times> error option) \<times> 'w \<times> 'c Source \<times> 'c" where
  "CopyWithCallback dst_Write writer reader totalSize cb c =
     (case cb of
        None \<Rightarrow> io_Copy dst_Write writer (Plain reader) c 0
      | Some f \<Rightarrow>
          let cbReader = \<lparr>C = Some f, TotalSize = totalSize, ReadSize = 0, Reader = reader\<rparr>
          in io_Copy dst_Write writer (Wrapped cbReader) c 0)"

text \<open>
  A callback that never fails and whose state is the list of argument triples it has been
  called with, oldest first.  It is the probe used to observe invocations.
\<close>

definition recorder :: "(int64 \<times> int64 \<times> int) list CopyCallback" where
  "recorder totalSize soFar sinceLast calls = (None, calls @ [(totalSize, soFar, sinceLast)])"

text \<open>A writer that takes every byte it is given and counts them.\<close>

definition accept_all :: "int Writer" where
  "accept_all d nr = ((nr, None), d + nr)"

text \<open>
  What the specification expects the callback to be told for reads that return
  \<open>ns\<close> bytes in turn, by a wrapper whose count stands at \<open>a\<close>: one triple per read, with
  the declared total, the running count including that read, and that read's bytes.
\<close>

fun progress_calls :: "int64 \<Rightarrow> int64 \<Rightarrow> int list \<Rightarrow> (int64 \<times> int64 \<times> int) list" where
  "progress_calls T a [] = []"
| "progress_calls T a (n # ns) = (T, a + word_of_int n, n) # progress_calls T (a + word_of_int n) ns"

declare io_Copy.simps [simp del]

section \<open>CopyCallbackFile\<close>

text \<open>
  \<open>fmt.Sprintf\<close>'s verb \<open>%d\<close>: a decimal numeral, with a minus sign for a negative value.
\<close>

fun decimal :: "nat \<Rightarrow> string" where
  "decimal n =
     (if n < 10 then [''0123456789'' ! n] else decimal (n div 10) @ [''0123456789'' ! (n mod 10)])"

declare decimal.simps [simp del]

definition fmt_d :: "int \<Rightarrow> string" where
  "fmt_d i = (if i < 0 then CHR ''-'' # decimal (nat (- i)) else decimal (nat i))"

text \<open>
  The operating system and the path library are outside the repository; the model takes them
  as a parameter.  \<open>'fs\<close> is the state of the file system, \<open>'f option\<close> is \<open>*os.File\<close>
  (\<open>None\<close> is the \<open>nil\<close> pointer).  \<open>IsAbs\<close> and \<open>Dir\<close> are \<open>filepath.IsAbs\<close> and
  \<open>filepath.Dir\<close>; \<open>MkdirAll\<close> and \<open>OpenFile\<close> are the functions of package \<open>os\<close> with
  their permission bits and open flags; \<open>Write\<close> and \<open>Sync\<close> are the methods of
  \<open>*os.File\<close>.
\<close>

datatype open_flag = O_WRONLY | O_CREATE | O_APPEND

record ('fs, 'f) OS =
  IsAbs :: "string \<Rightarrow> bool"
  Dir :: "string \<Rightarrow> string"
  MkdirAll :: "string \<Rightarrow> nat \<Rightarrow> 'fs \<Rightarrow> error option \<times> 'fs"
  OpenFile :: "string \<Rightarrow> open_flag list \<Rightarrow> nat \<Rightarrow> 'fs \<Rightarrow> ('f option \<times> error option) \<times> 'fs"
  Write :: "'f option \<Rightarrow> string \<Rightarrow> 'fs \<Rightarrow> (int \<times> error option) \<times> 'fs"
  Sync :: "'f option \<Rightarrow> 'fs \<Rightarrow> error option \<times> 'fs"

definition wrapProgressError :: "error option \<Rightarrow> string \<Rightarrow> string \<Rightarrow> error option" where
  "wrapProgressError err event filename =
     (case err of
        Some e \<Rightarrow>
          Some (Errorf (''Error writing Git LFS '' @ event @ '' progress to '' @ filename
                        @ '': '' @ Error e))
      | None \<Rightarrow> None)"

text \<open>
  The line built by \<open>fmt.Sprintf("%s %d/%d %d/%d %s\n", event, index, totalFiles, written,
  total, filename)\<close>; \<open>written\<close> and \<open>total\<close> are \<open>int64\<close>, printed signed.
\<close>

definition progress_line :: "string \<Rightarrow> int \<Rightarrow> int \<Rightarrow> int64 \<Rightarrow> int64 \<Rightarrow> string \<Rightarrow> string" where
  "progress_line event index totalFiles written tot filename =
     event @ '' '' @ fmt_d index @ ''/'' @ fmt_d totalFiles @ '' ''
       @ fmt_d (sint written) @ ''/'' @ fmt_d (sint tot) @ '' '' @ filename @ [CHR 0x0A]"

text \<open>
  The closure returned by \<open>CopyCallbackFile\<close>.  It captures \<open>file\<close>, \<open>event\<close>,
  \<open>filename\<close>, \<open>index\<close>, \<open>totalFiles\<close> and \<open>logPath\<close>, and owns the variable
  \<open>prevWritten\<close>; its state is \<open>prevWritten\<close> together with the file system it writes to.
  The value of \<open>file.Sync()\<close> is not bound to anything in the source, so \<open>serr\<close> does not
  occur in the result.
\<close>

definition progress_callback ::
  "('fs, 'f) OS \<Rightarrow> 'f option \<Rightarrow> string \<Rightarrow> string \<Rightarrow> int \<Rightarrow> int \<Rightarrow> string
     \<Rightarrow> (int64 \<times> 'fs) CopyCallback" where
  "progress_callback os file event filename index totalFiles logPath tot written current st =
     (case st of (prevWritten, fs) \<Rightarrow>
        if written \<noteq> prevWritten
        then (case Write os file (progress_line event index totalFiles written tot filename) fs of
                ((n, err), fs1) \<Rightarrow>
                  (case Sync os file fs1 of
                     (serr, fs2) \<Rightarrow> (wrapProgressError err event logPath, (written, fs2))))
        else (None, (prevWritten, fs)))"

text \<open>
  \<open>CopyCallbackFile\<close>.  \<open>Getenv\<close> stands for \<open>Config.Getenv\<close>, which is defined elsewhere
  in the package.  The result is the triple the source returns, with the callback given as
  the closure's code and the initial value of its \<open>prevWritten\<close>, and the file system as the
  call left it.
\<close>

definition CopyCallbackFile ::
  "('fs, 'f) OS \<Rightarrow> (string \<Rightarrow> string) \<Rightarrow> string \<Rightarrow> string \<Rightarrow> int \<Rightarrow> int \<Rightarrow> 'fs
     \<Rightarrow> (((int64 \<times> 'fs) CopyCallback \<times> int64) option \<times> 'f option \<times> error option) \<times> 'fs" where
  "CopyCallbackFile os Getenv event filename index totalFiles fs =
     (let logPath = Getenv ''GIT_LFS_PROGRESS'' in
      if length logPath = 0 \<or> length filename = 0 \<or> length event = 0
      then ((None, None, None), fs)
      else if \<not> IsAbs os logPath
      then ((None, None, Some (Errorf ''GIT_LFS_PROGRESS must be an absolute path'')), fs)
      else
        let cbDir = Dir os logPath in
        (case MkdirAll os cbDir 493 fs of
           (err, fs1) \<Rightarrow>
             if err \<noteq> None then ((None, None, wrapProgressError err event logPath), fs1)
             else
               (case OpenFile os logPath [O_WRONLY, O_CREATE, O_APPEND] 438 fs1 of
                  ((file, err), fs2) \<Rightarrow>
                    if err \<noteq> None then ((None, file, wrapProgressError err event logPath), fs2)
                    else
                      ((Some (progress_callback os file event filename index totalFiles logPath, 0),
                        file, None), fs2))))"

section \<open>FilenamePassesIncludeExcludeFilter\<close>

text \<open>
  What the filter takes from its platform: \<open>IsWindows\<close> is \<open>runtime.GOOS == "windows"\<close>,
  \<open>Separator\<close> is \<open>filepath.Separator\<close>, \<open>Match pattern name\<close> is \<open>filepath.Match\<close> with
  its two results, and \<open>Clean\<close> is \<open>filepath.Clean\<close>.  The three library functions belong to
  Go's standard library and differ between builds, so the filter is modelled over any of them.
\<close>

record Platform =
  IsWindows :: bool
  Separator :: char
  Match :: "string \<Rightarrow> string \<Rightarrow> bool \<times> error option"
  Clean :: "string \<Rightarrow> string"

text \<open>\<open>strings.HasPrefix(s, prefix)\<close> is \<open>len(s) >= len(prefix) && s[0:len(prefix)] == prefix\<close>.\<close>

definition HasPrefix :: "string \<Rightarrow> string \<Rightarrow> bool" where
  "HasPrefix s pre = (length s \<ge> length pre \<and> take (length pre) s = pre)"

text \<open>
  The loop over \<open>includePaths\<close>; \<open>matched\<close> is the variable declared before the loop, and the
  value returned is the one it has when the loop is left.
\<close>

fun include_loop :: "Platform \<Rightarrow> string \<Rightarrow> string \<Rightarrow> bool \<Rightarrow> string list \<Rightarrow> bool" where
  "include_loop P filename cleanfilename matched [] = matched"
| "include_loop P filename cleanfilename matched (inc # rest) =
     (let m1 = fst (Match P inc filename);
          m2 = (if \<not> m1 \<and> IsWindows P then fst (Match P inc cleanfilename) else m1);
          m3 = (if \<not> m2
                then (if HasPrefix cleanfilename (inc @ [Separator P]) then True else m2)
                else m2)
      in if m3 then m3 else include_loop P filename cleanfilename m3 rest)"

text \<open>
  The loop over \<open>excludePaths\<close>: \<open>True\<close> when the loop runs to its end, \<open>False\<close> when one of
  its two \<open>return false\<close> statements is reached.
\<close>

fun exclude_loop :: "Platform \<Rightarrow> string \<Rightarrow> string \<Rightarrow> string list \<Rightarrow> bool" where
  "exclude_loop P filename cleanfilename [] = True"
| "exclude_loop P filename cleanfilename (ex # rest) =
     (let m1 = fst (Match P ex filename);
          m2 = (if \<not> m1 \<and> IsWindows P then fst (Match P ex cleanfilename) else m1)
      in if m2 then False
         else if HasPrefix cleanfilename (ex @ [Separator P]) then False
         else exclude_loop P filename cleanfilename rest)"

definition FilenamePassesIncludeExcludeFilter ::
  "Platform \<Rightarrow> string \<Rightarrow> string list \<Rightarrow> string list \<Rightarrow> bool" where
  "FilenamePassesIncludeExcludeFilter P filename includePaths excludePaths =
     (if length includePaths = 0 \<and> length excludePaths = 0 then True
      else
        let cleanfilename = Clean P filename in
        if length includePaths > 0 \<and> \<not> include_loop P filename cleanfilename False includePaths
        then False
        else if length excludePaths > 0
        then exclude_loop P filename cleanfilename excludePaths
        else True)"

text \<open>
  The specification's notion of a pattern matching a path (section 4.2, rules 1 to 3): the raw
  path matches the glob, or on Windows the cleaned path matches the glob, or the cleaned path
  starts with the pattern followed by the separator.
\<close>

definition spec_matches :: "Platform \<Rightarrow> string \<Rightarrow> string \<Rightarrow> bool" where
  "spec_matches P pat filename =
     (fst (Match P pat filename)
      \<or> (IsWindows P \<and> fst (Match P pat (Clean P filename)))
      \<or> HasPrefix (Clean P filename) (pat @ [Separator P]))"

section \<open>A Unix platform to run the model on\<close>

text \<open>
  \<open>filepath.Clean\<close> of the Unix build (no volume names, separator \<open>/\<close>), after the loop of
  the standard library: \<open>r\<close> is the index of the next byte of \<open>path\<close> to read, \<open>out\<close> the bytes
  written so far, \<open>dotdot\<close> the length of \<open>out\<close> below which \<open>..\<close> must not remove anything.
\<close>

text \<open>
  \<open>backtrack\<close> is \<open>out.w--; for out.w > dotdot && !IsPathSeparator(out.index(out.w)) { out.w-- }\<close>,
  started with \<open>w\<close> already decremented: it gives the final \<open>out.w\<close>.
\<close>

fun backtrack :: "nat \<Rightarrow> string \<Rightarrow> nat \<Rightarrow> nat" where
  "backtrack dotdot out w =
     (if w > dotdot \<and> out ! w \<noteq> CHR ''/'' then backtrack dotdot out (w - 1) else w)"

declare backtrack.simps [simp del]

lemma element_nonempty:
  "r < length path \<Longrightarrow> path ! r \<noteq> c \<Longrightarrow> takeWhile (\<lambda>x. x \<noteq> c) (drop r path) \<noteq> []"
  by (simp add: Cons_nth_drop_Suc [symmetric])

function Clean_loop :: "string \<Rightarrow> bool \<Rightarrow> nat \<Rightarrow> string \<Rightarrow> nat \<Rightarrow> string" where
  "Clean_loop path rooted r out dotdot =
     (if r < length path then
        (if path ! r = CHR ''/'' then Clean_loop path rooted (r + 1) out dotdot
         else if path ! r = CHR ''.'' \<and> (r + 1 = length path \<or> path ! (r + 1) = CHR ''/'')
         then Clean_loop path rooted (r + 1) out dotdot
         else if path ! r = CHR ''.'' \<and> path ! (r + 1) = CHR ''.''
                 \<and> (r + 2 = length path \<or> path ! (r + 2) = CHR ''/'')
         then (if length out > dotdot
               then Clean_loop path rooted (r + 2)
                      (take (backtrack dotdot out (length out - 1)) out) dotdot
               else if \<not> rooted
               then (let out' = (if length out > 0 then out @ ''/'' else out) @ ''..''
                     in Clean_loop path rooted (r + 2) out' (length out'))
               else Clean_loop path rooted (r + 2) out dotdot)
         else (let out' = (if rooted \<and> length out \<noteq> 1 \<or> \<not> rooted \<and> length out \<noteq> 0
                           then out @ ''/'' else out);
                   element = takeWhile (\<lambda>x. x \<noteq> CHR ''/'') (drop r path)
               in Clean_loop path rooted (r + length element) (out' @ element) dotdot))
      else out)"
  by pat_completeness auto
termination
  by (relation "measure (\<lambda>(path, rooted, r, out, dotdot). length path - r)")
     (auto simp: element_nonempty intro!: diff_less_mono2)

declare Clean_loop.simps [simp del]

definition Clean_unix :: "string \<Rightarrow> string" where
  "Clean_unix path =
     (if path = [] then ''.''
      else
        let rooted = (path ! 0 = CHR ''/'');
            out = (if rooted then Clean_loop path rooted 1 ''/'' 1
                   else Clean_loop path rooted 0 [] 0)
        in if length out = 0 then ''.'' else out)"

text \<open>
  \<open>filepath.Dir\<close> of the Unix build: everything up to the last separator, cleaned.
\<close>

definition Dir_unix :: "string \<Rightarrow> string" where
  "Dir_unix path = Clean_unix (rev (dropWhile (\<lambda>x. x \<noteq> CHR ''/'') (rev path)))"

text \<open>
  A glob evaluator for patterns without the metacharacters \<open>*\<close>, \<open>?\<close>, \<open>[\<close> and \<open>\\<close>: such
  a pattern matches its own text and nothing else, and is never malformed.  It is what the
  examples below run on; none of them uses a metacharacter.
\<close>

definition Match_literal :: "string \<Rightarrow> string \<Rightarrow> bool \<times> error option" where
  "Match_literal pattern name = (pattern = name, None)"

definition unix :: Platform where
  "unix = \<lparr>IsWindows = False, Separator = CHR ''/'', Match = Match_literal, Clean = Clean_unix\<rparr>"

text \<open>
  A file system in memory, for running \<open>CopyCallbackFile\<close>: the directories created, the
  content of each file, and the errors that the next \<open>Write\<close> and \<open>Sync\<close> are to report.
\<close>

record memfs =
  dirs :: "string list"
  files :: "string \<Rightarrow> string option"
  write_error :: "error option"
  sync_error :: "error option"

definition mem_os :: "(memfs, string) OS" where
  "mem_os =
     \<lparr>IsAbs = (\<lambda>path. HasPrefix path ''/''),
      Dir = Dir_unix,
      MkdirAll = (\<lambda>dir perm fs. (None, fs\<lparr>dirs := dir # dirs fs\<rparr>)),
      OpenFile = (\<lambda>path flags perm fs.
        ((Some path, None),
         (case files fs path of None \<Rightarrow> fs\<lparr>files := (files fs)(path \<mapsto> [])\<rparr> | Some _ \<Rightarrow> fs))),
      Write = (\<lambda>file data fs.
        (case file of
           None \<Rightarrow> ((0, Some (Errorf ''invalid argument'')), fs)
         | Some path \<Rightarrow>
             (case write_error fs of
                Some e \<Rightarrow> ((0, Some e), fs)
              | None \<Rightarrow>
                  ((int (length data), None),
                   fs\<lparr>files := (files fs)(path \<mapsto> (case files fs path of None \<Rightarrow> [] | Some old \<Rightarrow> old) @ data)\<rparr>)))),
      Sync = (\<lambda>file fs. (sync_error fs, fs))\<rparr>"

(* THEOREMS *)

section \<open>Properties of the progress stream\<close>

subsection \<open>Auxiliary facts\<close>

lemma Read_ReadSize:
  "Read w c = ((n, e), w', c') \<Longrightarrow>
     ReadSize w' = (if 0 < n then ReadSize w + word_of_int n else ReadSize w)"
  by (auto simp: Read_def Let_def split: prod.splits option.splits if_splits)

lemma Reads_ReadSize:
  "Reads N w c = (rs, w', c') \<Longrightarrow> \<forall>r\<in>set rs. 0 \<le> fst r \<Longrightarrow>
     ReadSize w' = ReadSize w + word_of_int (sum_list (map fst rs))"
proof (induction N arbitrary: w c rs)
  case 0
  then show ?case by simp
next
  case (Suc N)
  obtain n e w1 c1 where r: "Read w c = ((n, e), w1, c1)" by (metis prod_cases3 surj_pair)
  obtain rs1 where t: "Reads N w1 c1 = (rs1, w', c')" and rs: "rs = (n, e) # rs1"
    using Suc.prems(1) r by (auto split: prod.splits)
  have "ReadSize w' = ReadSize w1 + word_of_int (sum_list (map fst rs1))"
    using Suc.IH[OF t] Suc.prems(2) rs by simp
  moreover have "ReadSize w1 = ReadSize w + word_of_int n"
    using Read_ReadSize[OF r] Suc.prems(2) rs by (cases "n = 0") auto
  ultimately show ?case using rs by simp
qed

lemma sint_add_nonneg:
  assumes "0 \<le> sint (a::int64)" "0 \<le> s" "sint a + s < 2 ^ 63"
  shows "sint (a + word_of_int s) = sint a + s"
proof -
  have s: "sint (word_of_int s :: int64) = s"
    using assms by (simp add: signed_of_int signed_take_bit_int_eq_self)
  have "sint (a + word_of_int s) = signed_take_bit 63 (sint a + sint (word_of_int s :: int64))"
    by (simp add: sint_word_ariths word_size)
  also have "\<dots> = sint a + s"
    using assms s by (simp add: signed_take_bit_int_eq_self)
  finally show ?thesis .
qed

lemma Reads_split:
  "Reads (j + k) w c =
     (case Reads j w c of (rs, w', c') \<Rightarrow>
        (case Reads k w' c' of (rs', w'', c'') \<Rightarrow> (rs @ rs', w'', c'')))"
  by (induction j arbitrary: w c) (auto split: prod.splits)

lemma Read_ok:
  "Read \<lparr>C = Some cb, TotalSize = T, ReadSize = a, Reader = (n, None) # rd\<rparr> c =
     (let a' = (if 0 < n then a + word_of_int n else a)
      in ((n, fst (cb T a' n c)), \<lparr>C = Some cb, TotalSize = T, ReadSize = a', Reader = rd\<rparr>,
          snd (cb T a' n c)))"
  by (simp add: Read_def Let_def split: prod.splits)

lemma Read_failed:
  "Read \<lparr>C = cbo, TotalSize = T, ReadSize = a, Reader = (n, Some e) # rd\<rparr> c =
     ((n, Some e),
      \<lparr>C = cbo, TotalSize = T, ReadSize = (if 0 < n then a + word_of_int n else a), Reader = rd\<rparr>, c)"
  by (simp add: Read_def Let_def split: option.splits)

lemma recorder_fst: "fst (recorder T a n calls) = None"
  and recorder_snd: "snd (recorder T a n calls) = calls @ [(T, a, n)]"
  by (simp_all add: recorder_def)

lemma io_Copy_run:
  assumes W: "\<forall>d n. fst (W d n) = (n, None)"
    and rs: "\<forall>r\<in>set rs. snd r = None \<and> 0 \<le> fst r" and m: "0 \<le> m"
  shows "\<exists>d'. io_Copy W d (Wrapped \<lparr>C = Some recorder, TotalSize = T, ReadSize = a,
                                 Reader = rs @ (m, Some e) # rest\<rparr>) calls written =
           ((written + word_of_int (sum_list (map fst rs) + m), if e = EOF then None else Some e),
            d',
            Wrapped \<lparr>C = Some recorder, TotalSize = T,
                     ReadSize = a + word_of_int (sum_list (map fst rs) + m), Reader = rest\<rparr>,
            calls @ progress_calls T a (map fst rs))"
  using rs
proof (induction rs arbitrary: a calls written d)
  case Nil
  obtain d1 where w: "W d m = ((m, None), d1)"
    using W by (metis fst_conv surj_pair)
  show ?case
    using m w by (subst io_Copy.simps) (auto simp: Read_failed)
next
  case (Cons r rs)
  obtain n where r: "r = (n, None)" and n: "0 \<le> n"
    using Cons.prems by (cases r) auto
  obtain d1 where w: "W d n = ((n, None), d1)"
    using W by (metis fst_conv surj_pair)
  have rs: "\<forall>r\<in>set rs. snd r = None \<and> 0 \<le> fst r"
    using Cons.prems by simp
  have a: "(if 0 < n then a + word_of_int n else a) = a + word_of_int n"
    using n by (cases "n = 0") auto
  have step: "io_Copy W d (Wrapped \<lparr>C = Some recorder, TotalSize = T, ReadSize = a,
                                 Reader = (r # rs) @ (m, Some e) # rest\<rparr>) calls written =
     io_Copy W (if 0 < n then d1 else d) (Wrapped \<lparr>C = Some recorder, TotalSize = T, ReadSize = a + word_of_int n,
                                 Reader = rs @ (m, Some e) # rest\<rparr>) (calls @ [(T, a + word_of_int n, n)])
                                 (written + word_of_int n)"
    using n w r a
    by (subst io_Copy.simps) (simp add: Read_ok Let_def recorder_fst recorder_snd)
  from Cons.IH[OF rs, of "if 0 < n then d1 else d" "a + word_of_int n" "calls @ [(T, a + word_of_int n, n)]" "written + word_of_int n"]
  show ?case
    unfolding step using r by (simp add: add.assoc)
qed

lemma sint_word_of_int_64:
  "0 \<le> s \<Longrightarrow> s < 2 ^ 63 \<Longrightarrow> sint (word_of_int s :: int64) = s"
  by (simp add: signed_of_int signed_take_bit_int_eq_self)

lemma sum_fst_nonneg: "\<forall>r\<in>set rs. (0::int) \<le> fst r \<Longrightarrow> 0 \<le> sum_list (map fst rs)"
  by (induction rs) auto

subsection \<open>Claims about the progress stream\<close>

text \<open>
  Claim C1, as amended.  Let the underlying reader return \<open>rs\<close>, a sequence of reads without
  error and with non-negative byte counts, and then one read of \<open>m\<close> bytes together with an
  error \<open>e\<close> (\<open>io.EOF\<close> or any other), the sum \<open>S\<close> of all counts fitting \<open>int64\<close>; let the
  destination accept every write.  Then \<open>CopyWithCallback\<close> with a callback leaves the
  wrapper's \<open>ReadSize\<close> equal to \<open>S\<close>, issues no read after the one that reported the error,
  and has invoked the callback exactly once for each read that returned no error, in read
  order, with (declared total, cumulative count including that read, bytes of that read).
  The read that reported the error is counted in \<open>ReadSize\<close> but is not reported to the
  callback.
\<close>

theorem C1_callback_per_successful_read:
  assumes "\<forall>d n. fst (W d n) = (n, None)"
    and "\<forall>r\<in>set rs. snd r = None \<and> 0 \<le> fst r" and "0 \<le> m"
    and "sum_list (map fst rs) + m < 2 ^ 63"
  shows "\<exists>written d' w'.
           CopyWithCallback W d (rs @ (m, Some e) # rest) T (Some recorder) [] =
             ((written, if e = EOF then None else Some e), d', Wrapped w',
              progress_calls T 0 (map fst rs))
           \<and> sint (ReadSize w') = sum_list (map fst rs) + m
           \<and> Reader w' = rest"
proof -
  have nn: "0 \<le> sum_list (map fst rs) + m"
    using assms(2,3) sum_fst_nonneg[of rs] by simp
  obtain d' where "io_Copy W d (Wrapped \<lparr>C = Some recorder, TotalSize = T, ReadSize = 0,
                                 Reader = rs @ (m, Some e) # rest\<rparr>) [] 0 =
           ((0 + word_of_int (sum_list (map fst rs) + m), if e = EOF then None else Some e),
            d',
            Wrapped \<lparr>C = Some recorder, TotalSize = T,
                     ReadSize = 0 + word_of_int (sum_list (map fst rs) + m), Reader = rest\<rparr>,
            [] @ progress_calls T 0 (map fst rs))"
    using io_Copy_run[OF assms(1,2,3), of d T 0 e rest "[]" 0] by blast
  then show ?thesis
    using sint_word_of_int_64[OF nn assms(4)]
    by (simp add: CopyWithCallback_def)
qed

theorem C1_witness:
  "\<exists>written d' w'.
     CopyWithCallback accept_all 0 [(4, None), (0, None), (3, Some EOF)] 7 (Some recorder) [] =
       ((written, None), d', Wrapped w', [(7, 4, 4), (7, 4, 0)])
     \<and> sint (ReadSize w') = 7 \<and> Reader w' = []"
  using C1_callback_per_successful_read[where W = accept_all and rs = "[(4, None), (0, None)]"
      and m = 3 and e = EOF and d = 0 and rest = "[]" and T = 7]
  by (simp add: accept_all_def)

text \<open>
  The claim as written also promises an invocation for a read that returns bytes together with
  an error.  A reader that gives 4 bytes and then 3 bytes with \<open>io.EOF\<close> makes two
  underlying reads; the callback is invoked once, not twice.
\<close>

theorem C1_counterexample:
  "snd (snd (snd (CopyWithCallback accept_all 0 [(4, None), (3, Some EOF)] 7 (Some recorder) [])))
     = [(7, 4, 4)]
   \<and> progress_calls 7 0 (map fst [(4, None), (3, Some EOF)]) = [(7, 4, 4), (7, 7, 3)]"
  by code_simp

end
